theory Spec2Isabelle
  imports Complex_Main
begin

section \<open>The distributed-bootstrap helper of \<^verbatim>\<open>viswsl/utils/distributed.py\<close>\<close>

text \<open>
  The module reads and writes the process environment, calls four primitives of the
  collective-communication runtime (\<^verbatim>\<open>init_process_group\<close>, \<^verbatim>\<open>barrier\<close>,
  \<^verbatim>\<open>all_reduce\<close>, \<^verbatim>\<open>torch.cuda.set_device\<close>) and logs one line on failure. The
  embedding threads an explicit \<open>world\<close> through every function: the environment, the
  process group of the runtime, the bound device, and the list of effects in the order in
  which the code performs them. Exceptions are values of type \<open>exn\<close>; a computation
  returns \<open>Inl e\<close> when the Python raises \<open>e\<close>.
\<close>

subsection \<open>Exceptions, effects and the world\<close>

text \<open>
  The subclasses of \<^verbatim>\<open>Exception\<close> that the module or its collaborators raise.
  \<open>KeyError\<close> carries the missing key, \<open>ValueError\<close> the literal that \<^verbatim>\<open>int()\<close>
  rejected, \<open>AssertionError\<close> and \<open>RuntimeError\<close> their message.
\<close>

datatype exn =
    AssertionError string
  | KeyError string
  | ValueError string
  | IndexError
  | RuntimeError string

text \<open>The keyword arguments of one call of \<^verbatim>\<open>dist.init_process_group\<close>.\<close>

record init_call =
  ic_backend :: string
  ic_init_method :: string
  ic_world_size :: "int option"
  ic_rank :: "int option"

text \<open>What the runtime answers once a group exists.\<close>

record pgroup =
  pg_rank :: int
  pg_world_size :: int

datatype event =
    EnvGet string
  | EnvSet string string
  | InitProcessGroup init_call
  | Barrier
  | LogError string
  | SetDevice int

record world =
  environ :: "string \<rightharpoonup> string"
  group :: "pgroup option"
  device :: "int option"
  trace :: "event list"

text \<open>
  The collaborators are not part of the module: whether a device is present, whether the
  rendezvous succeeds and which group it forms, whether the barrier and the device binding
  succeed are parameters of every function below.
\<close>

record runtime =
  cuda_is_available :: bool
  init_process_group_rt :: "init_call \<Rightarrow> (string \<rightharpoonup> string) \<Rightarrow> exn + pgroup"
  barrier_rt :: "pgroup \<Rightarrow> exn option"
  set_device_rt :: "int \<Rightarrow> exn option"

type_synonym 'a py = "world \<Rightarrow> (exn + 'a) \<times> world"

definition py_return :: "'a \<Rightarrow> 'a py" where
  "py_return x w = (Inr x, w)"

definition py_raise :: "exn \<Rightarrow> 'a py" where
  "py_raise e w = (Inl e, w)"

definition py_bind :: "'a py \<Rightarrow> ('a \<Rightarrow> 'b py) \<Rightarrow> 'b py" where
  "py_bind m f w = (case m w of (Inl e, w') \<Rightarrow> (Inl e, w') | (Inr x, w') \<Rightarrow> f x w')"

text \<open>\<^verbatim>\<open>try: m except Exception as e: h(e)\<close>\<close>

definition py_try :: "'a py \<Rightarrow> (exn \<Rightarrow> 'a py) \<Rightarrow> 'a py" where
  "py_try m h w = (case m w of (Inl e, w') \<Rightarrow> h e w' | (Inr x, w') \<Rightarrow> (Inr x, w'))"

definition py_lift :: "exn + 'a \<Rightarrow> 'a py" where
  "py_lift r w = (r, w)"

definition py_assert :: "bool \<Rightarrow> string \<Rightarrow> unit py" where
  "py_assert b msg = (if b then py_return () else py_raise (AssertionError msg))"

definition emit :: "event \<Rightarrow> world \<Rightarrow> world" where
  "emit e w = w\<lparr>trace := trace w @ [e]\<rparr>"

text \<open>The effects a run adds to the trace of the world it started in.\<close>

definition new_events :: "world \<Rightarrow> world \<Rightarrow> event list" where
  "new_events w w' = drop (length (trace w)) (trace w')"

subsection \<open>The process environment\<close>

text \<open>\<^verbatim>\<open>os.environ.get(k, d)\<close>, \<^verbatim>\<open>os.environ[k]\<close> and \<^verbatim>\<open>os.environ[k] = v\<close>.\<close>

definition environ_get :: "string \<Rightarrow> string \<Rightarrow> string py" where
  "environ_get k d w =
     (Inr (case environ w k of Some v \<Rightarrow> v | None \<Rightarrow> d), emit (EnvGet k) w)"

definition environ_item :: "string \<Rightarrow> string py" where
  "environ_item k w =
     (case environ w k of
        Some v \<Rightarrow> (Inr v, emit (EnvGet k) w)
      | None \<Rightarrow> (Inl (KeyError k), emit (EnvGet k) w))"

definition environ_set :: "string \<Rightarrow> string \<Rightarrow> unit py" where
  "environ_set k v w = (Inr (), emit (EnvSet k v) (w\<lparr>environ := (environ w)(k \<mapsto> v)\<rparr>))"

subsection \<open>Strings: \<^verbatim>\<open>str.split\<close>, \<^verbatim>\<open>xs[-1]\<close> and \<^verbatim>\<open>int()\<close>\<close>

text \<open>
  \<^verbatim>\<open>s.split(sep)\<close> with a one-character separator: the pieces between the
  separators, empty pieces kept, so the result is never empty.
\<close>

fun split_on :: "char \<Rightarrow> string \<Rightarrow> string list" where
  "split_on c [] = [[]]"
| "split_on c (x # xs) =
     (let r = split_on c xs in if x = c then [] # r else (x # hd r) # tl r)"

text \<open>\<^verbatim>\<open>xs[-1]\<close> raises \<^verbatim>\<open>IndexError\<close> on the empty list.\<close>

definition index_last :: "'a list \<Rightarrow> exn + 'a" where
  "index_last xs = (if xs = [] then Inl IndexError else Inr (last xs))"

text \<open>
  \<^verbatim>\<open>int(s)\<close> in base ten on an ASCII string: surrounding whitespace (tab, line
  feed, vertical tab, form feed, carriage return and space) is dropped, one sign is
  allowed, then at least one digit, with single underscores allowed between digits.
  Anything else raises \<^verbatim>\<open>ValueError\<close>.
\<close>

definition is_space :: "char \<Rightarrow> bool" where
  "is_space c = (let n = (of_char c :: nat) in (9 \<le> n \<and> n \<le> 13) \<or> n = 32)"

definition is_digit :: "char \<Rightarrow> bool" where
  "is_digit c = (let n = (of_char c :: nat) in 48 \<le> n \<and> n \<le> 57)"

definition digit_val :: "char \<Rightarrow> int" where
  "digit_val c = int (of_char c) - 48"

definition strip :: "string \<Rightarrow> string" where
  "strip s = rev (dropWhile is_space (rev (dropWhile is_space s)))"

fun digits_from :: "int \<Rightarrow> string \<Rightarrow> int option" where
  "digits_from acc [] = Some acc"
| "digits_from acc [c] =
     (if is_digit c then Some (acc * 10 + digit_val c) else None)"
| "digits_from acc (c # d # ds) =
     (if is_digit c then digits_from (acc * 10 + digit_val c) (d # ds)
      else if c = CHR ''_'' \<and> is_digit d then digits_from (acc * 10 + digit_val d) ds
      else None)"

definition unsigned_int :: "string \<Rightarrow> int option" where
  "unsigned_int s =
     (case s of
        [] \<Rightarrow> None
      | c # cs \<Rightarrow> if is_digit c then digits_from (digit_val c) cs else None)"

definition parse_int :: "string \<Rightarrow> int option" where
  "parse_int s =
     (case strip s of
        [] \<Rightarrow> None
      | c # cs \<Rightarrow>
          if c = CHR ''-'' then map_option uminus (unsigned_int cs)
          else if c = CHR ''+'' then unsigned_int cs
          else unsigned_int (c # cs))"

definition py_int :: "string \<Rightarrow> exn + int" where
  "py_int s = (case parse_int s of None \<Rightarrow> Inl (ValueError s) | Some n \<Rightarrow> Inr n)"

subsection \<open>The runtime's primitives as effects\<close>

definition is_initialized :: "world \<Rightarrow> bool" where
  "is_initialized w = (group w \<noteq> None)"

definition dist_init_process_group :: "runtime \<Rightarrow> init_call \<Rightarrow> unit py" where
  "dist_init_process_group rt c w =
     (case init_process_group_rt rt c (environ w) of
        Inl e \<Rightarrow> (Inl e, emit (InitProcessGroup c) w)
      | Inr g \<Rightarrow> (Inr (), emit (InitProcessGroup c) (w\<lparr>group := Some g\<rparr>)))"

definition dist_barrier :: "runtime \<Rightarrow> unit py" where
  "dist_barrier rt w =
     (case group w of
        None \<Rightarrow> (Inl (RuntimeError ''Default process group has not been initialized''), emit Barrier w)
      | Some g \<Rightarrow>
          (case barrier_rt rt g of
             Some e \<Rightarrow> (Inl e, emit Barrier w)
           | None \<Rightarrow> (Inr (), emit Barrier w)))"

definition cuda_set_device :: "runtime \<Rightarrow> int \<Rightarrow> unit py" where
  "cuda_set_device rt n w =
     (case set_device_rt rt n of
        Some e \<Rightarrow> (Inl e, emit (SetDevice n) w)
      | None \<Rightarrow> (Inr (), emit (SetDevice n) (w\<lparr>device := Some n\<rparr>)))"

definition logger_error :: "string \<Rightarrow> unit py" where
  "logger_error msg w = (Inr (), emit (LogError msg) w)"

subsection \<open>The query functions\<close>

definition synchronize :: "runtime \<Rightarrow> unit py" where
  "synchronize rt w = (if is_initialized w then dist_barrier rt w else py_return () w)"

definition get_world_size :: "world \<Rightarrow> int" where
  "get_world_size w = (case group w of Some g \<Rightarrow> pg_world_size g | None \<Rightarrow> 1)"

definition get_rank :: "world \<Rightarrow> int" where
  "get_rank w = (case group w of Some g \<Rightarrow> pg_rank g | None \<Rightarrow> 0)"

definition is_master_process :: "world \<Rightarrow> bool" where
  "is_master_process w = (get_rank w = 0)"

text \<open>
  The tensor type and its two operations belong to the runtime: \<open>all_reduce_sum\<close> is the
  collective \<^verbatim>\<open>dist.all_reduce(t, op=SUM)\<close>, \<open>div_scalar\<close> is \<^verbatim>\<open>t /= n\<close>.
\<close>

record 't tensor_ops =
  all_reduce_sum :: "'t \<Rightarrow> pgroup \<Rightarrow> exn + 't"
  div_scalar :: "'t \<Rightarrow> int \<Rightarrow> exn + 't"

definition average_across_processes :: "'t tensor_ops \<Rightarrow> 't \<Rightarrow> 't py" where
  "average_across_processes ops t w =
     (case group w of
        None \<Rightarrow> py_return t w
      | Some g \<Rightarrow>
          py_bind (py_lift (all_reduce_sum ops t g))
            (\<lambda>s. py_lift (div_scalar ops s (get_world_size w))) w)"

subsection \<open>\<^verbatim>\<open>init_distributed_env\<close>\<close>

text \<open>
  Lines 42 to 51. Python evaluates the arguments of a call first, so the scheduler
  variable is read before the override variable.
\<close>

definition normalize_env :: "unit py" where
  "normalize_env =
     py_bind (environ_get ''SLURM_NODELIST'' ''localhost'') (\<lambda>nodelist.
     py_bind (py_lift (index_last (split_on CHR '','' nodelist))) (\<lambda>node.
     py_bind (environ_get ''MASTER_ADDR'' node) (\<lambda>addr.
     py_bind (environ_set ''MASTER_ADDR'' addr) (\<lambda>_.
     py_bind (environ_get ''SLURM_PROCID'' ''0'') (\<lambda>procid.
     py_bind (environ_get ''RANK'' procid) (\<lambda>rank.
     py_bind (environ_set ''RANK'' rank) (\<lambda>_.
     py_bind (environ_get ''SLURM_NTASKS'' ''1'') (\<lambda>ntasks.
     py_bind (environ_get ''WORLD_SIZE'' ntasks) (\<lambda>world_size.
     environ_set ''WORLD_SIZE'' world_size)))))))))"

text \<open>Lines 52 to 62: the group is formed inside \<^verbatim>\<open>try\<close>, the handler logs and re-raises.\<close>

definition form_group_env :: "runtime \<Rightarrow> string \<Rightarrow> unit py" where
  "form_group_env rt backend =
     py_try
       (py_bind (environ_item ''WORLD_SIZE'') (\<lambda>s.
        py_bind (py_lift (py_int s)) (\<lambda>n.
        if n > 1 then
          py_bind (dist_init_process_group rt
                     \<lparr>ic_backend = backend, ic_init_method = ''env://'',
                      ic_world_size = None, ic_rank = None\<rparr>) (\<lambda>_.
          synchronize rt)
        else py_return ())))
       (\<lambda>e.
        py_bind (environ_item ''MASTER_ADDR'') (\<lambda>addr.
        py_bind (environ_item ''MASTER_PORT'') (\<lambda>port.
        py_bind (logger_error (''Dist URL: '' @ addr @ '':'' @ port)) (\<lambda>_.
        py_raise e))))"

text \<open>Lines 64 to 70.\<close>

definition bind_local_rank :: "runtime \<Rightarrow> int py" where
  "bind_local_rank rt =
     py_bind (environ_get ''SLURM_LOCALID'' ''0'') (\<lambda>localid.
     py_bind (environ_get ''LOCAL_RANK'' localid) (\<lambda>s.
     py_bind (py_lift (py_int s)) (\<lambda>local_rank.
     py_bind (cuda_set_device rt local_rank) (\<lambda>_.
     py_return local_rank))))"

definition init_distributed_env :: "runtime \<Rightarrow> string \<Rightarrow> int py" where
  "init_distributed_env rt backend =
     py_bind (py_assert (cuda_is_available rt) ''Cannot use GPU, CUDA not found!'') (\<lambda>_.
     py_bind normalize_env (\<lambda>_.
     py_bind (form_group_env rt backend) (\<lambda>_.
     bind_local_rank rt)))"

subsection \<open>\<^verbatim>\<open>init_distributed_tcp\<close>\<close>

text \<open>Lines 82 and 83: the two values computed from the arguments.\<close>

definition tcp_world_size :: "int \<Rightarrow> int \<Rightarrow> int" where
  "tcp_world_size num_machines num_gpus_per_machine = num_machines * num_gpus_per_machine"

definition tcp_world_rank :: "int \<Rightarrow> int \<Rightarrow> int \<Rightarrow> int" where
  "tcp_world_rank machine_rank num_gpus_per_machine local_rank =
     machine_rank * num_gpus_per_machine + local_rank"

definition init_distributed_tcp ::
  "runtime \<Rightarrow> int \<Rightarrow> int \<Rightarrow> int \<Rightarrow> int \<Rightarrow> string \<Rightarrow> string \<Rightarrow> int py" where
  "init_distributed_tcp rt local_rank machine_rank num_gpus_per_machine num_machines
       dist_url backend =
     py_bind (py_assert (cuda_is_available rt) ''Cannot use GPU, CUDA not found!'') (\<lambda>_.
     let world_size = tcp_world_size num_machines num_gpus_per_machine;
         world_rank = tcp_world_rank machine_rank num_gpus_per_machine local_rank
     in
     py_bind
       (py_try
          (py_bind
             (if world_size > 1 then
                dist_init_process_group rt
                  \<lparr>ic_backend = backend, ic_init_method = dist_url,
                   ic_world_size = Some world_size, ic_rank = Some world_rank\<rparr>
              else py_return ()) (\<lambda>_.
           synchronize rt))
          (\<lambda>e.
           py_bind (logger_error (''Dist URL: '' @ dist_url)) (\<lambda>_.
           py_raise e))) (\<lambda>_.
     py_bind (cuda_set_device rt local_rank) (\<lambda>_.
     py_return local_rank)))"

subsection \<open>Worlds and runtimes to run the model on\<close>

text \<open>A process that has just started: no group, no device bound, nothing done yet.\<close>

definition fresh_world :: "(string \<times> string) list \<Rightarrow> world" where
  "fresh_world vars = \<lparr>environ = map_of vars, group = None, device = None, trace = []\<rparr>"

text \<open>
  Modelled from the spec: the collaborator interface of section 6 is outside the module.
  In this runtime a device is present and every primitive succeeds; a rendezvous through
  the environment forms the group that \<^verbatim>\<open>RANK\<close> and \<^verbatim>\<open>WORLD_SIZE\<close> describe, a
  rendezvous with explicit arguments the group that the arguments describe.
\<close>

definition env_group :: "(string \<rightharpoonup> string) \<Rightarrow> exn + pgroup" where
  "env_group env =
     (case (env ''RANK'', env ''WORLD_SIZE'', env ''MASTER_ADDR'', env ''MASTER_PORT'') of
        (Some r, Some n, Some _, Some _) \<Rightarrow>
          (case (parse_int r, parse_int n) of
             (Some r', Some n') \<Rightarrow> Inr \<lparr>pg_rank = r', pg_world_size = n'\<rparr>
           | _ \<Rightarrow> Inl (ValueError r))
      | _ \<Rightarrow> Inl (ValueError ''environment variable expected, but not set''))"

definition cooperative_runtime :: runtime where
  "cooperative_runtime =
     \<lparr>cuda_is_available = True,
      init_process_group_rt = (\<lambda>c env.
        if ic_init_method c = ''env://'' then env_group env
        else (case (ic_rank c, ic_world_size c) of
                (Some r, Some n) \<Rightarrow> Inr \<lparr>pg_rank = r, pg_world_size = n\<rparr>
              | _ \<Rightarrow> Inl (ValueError ''rank and world_size expected''))),
      barrier_rt = (\<lambda>_. None),
      set_device_rt = (\<lambda>_. None)\<rparr>"

text \<open>The same runtime on a machine without an accelerator device.\<close>

definition deviceless_runtime :: runtime where
  "deviceless_runtime = cooperative_runtime\<lparr>cuda_is_available := False\<rparr>"

text \<open>A process started by the scheduler on the second of two nodes.\<close>

definition slurm_world :: world where
  "slurm_world = fresh_world
     [(''SLURM_NODELIST'', ''node1,node2''), (''SLURM_PROCID'', ''3''),
      (''SLURM_NTASKS'', ''4''), (''SLURM_LOCALID'', ''1''), (''MASTER_PORT'', ''29500'')]"

text \<open>A process of rank 2 among 4, configured by the override variables.\<close>

definition rank2_world :: world where
  "rank2_world = fresh_world
     [(''MASTER_PORT'', ''29500''), (''RANK'', ''2''), (''WORLD_SIZE'', ''4'')]"

text \<open>Tensor operations of a runtime without any group: both collectives fail.\<close>

definition absent_collective :: "int list tensor_ops" where
  "absent_collective =
     \<lparr>all_reduce_sum = (\<lambda>t g. Inl (RuntimeError ''no process group'')),
      div_scalar = (\<lambda>t n. Inl (RuntimeError ''no process group''))\<rparr>"






subsection \<open>The fallback chain in the words of the specification\<close>

text \<open>
  Section 6 of the specification: each parameter is the explicit override variable if it
  is set, else the scheduler variable if it is set, else a default. For the address the
  scheduler value is the last comma-separated entry of the node list, that is, what
  follows the last comma.
\<close>

definition fallback :: "(string \<rightharpoonup> string) \<Rightarrow> string \<Rightarrow> string \<Rightarrow> string \<Rightarrow> string" where
  "fallback env override scheduler dflt =
     (case env override of
        Some v \<Rightarrow> v
      | None \<Rightarrow> (case env scheduler of Some v \<Rightarrow> v | None \<Rightarrow> dflt))"

definition last_comma_entry :: "string \<Rightarrow> string" where
  "last_comma_entry s = rev (takeWhile (\<lambda>c. c \<noteq> CHR '','') (rev s))"

definition resolved_master_addr :: "(string \<rightharpoonup> string) \<Rightarrow> string" where
  "resolved_master_addr env =
     (case env ''MASTER_ADDR'' of
        Some v \<Rightarrow> v
      | None \<Rightarrow> (case env ''SLURM_NODELIST'' of
                   Some l \<Rightarrow> last_comma_entry l
                 | None \<Rightarrow> ''localhost''))"


section \<open>Properties\<close>

subsection \<open>Unfolding the monad and the primitives\<close>

lemmas py_defs = py_bind_def py_try_def py_return_def py_raise_def py_lift_def py_assert_def

lemmas env_defs = environ_get_def environ_item_def environ_set_def emit_def

lemmas rt_defs = dist_init_process_group_def dist_barrier_def cuda_set_device_def
  logger_error_def synchronize_def is_initialized_def

subsection \<open>Splitting at a separator\<close>

lemma split_on_nonempty: "split_on c s \<noteq> []"
  by (induction s) (auto simp: Let_def)

lemma split_on_no_sep: "c \<notin> set s \<Longrightarrow> split_on c s = [s]"
  by (induction s) (auto simp: Let_def)

lemma split_on_sep: "c \<in> set s \<Longrightarrow> tl (split_on c s) \<noteq> []"
proof (induction s)
  case Nil
  then show ?case by simp
next
  case (Cons x xs)
  show ?case
  proof (cases "x = c")
    case True
    then show ?thesis by (simp add: Let_def split_on_nonempty)
  next
    case False
    with Cons show ?thesis by (simp add: Let_def)
  qed
qed

lemma last_split_on: "last (split_on c s) = rev (takeWhile (\<lambda>x. x \<noteq> c) (rev s))"
proof (induction s)
  case Nil
  then show ?case by simp
next
  case (Cons x xs)
  let ?r = "split_on c xs"
  have ne: "?r \<noteq> []" by (rule split_on_nonempty)
  show ?case
  proof (cases "x = c")
    case True
    have "last (split_on c (x # xs)) = last ?r"
      using True ne by (simp add: Let_def)
    also have "\<dots> = rev (takeWhile (\<lambda>x. x \<noteq> c) (rev xs))" by (rule Cons.IH)
    also have "\<dots> = rev (takeWhile (\<lambda>x. x \<noteq> c) (rev (x # xs)))"
      using True by (simp add: takeWhile_append)
    finally show ?thesis .
  next
    case False
    show ?thesis
    proof (cases "c \<in> set xs")
      case True
      have "tl ?r \<noteq> []" using True by (rule split_on_sep)
      then have "last (split_on c (x # xs)) = last ?r"
        using False ne by (cases ?r) (auto simp: Let_def)
      then show ?thesis
        using Cons.IH True by (auto simp add: takeWhile_append)
    next
      case nosep: False
      then have all: "\<forall>y \<in> set (rev (x # xs)). y \<noteq> c"
        using False by auto
      have "split_on c (x # xs) = [x # xs]"
        using nosep False by (intro split_on_no_sep) simp
      then have "last (split_on c (x # xs)) = x # xs"
        by (simp only: last.simps) simp
      moreover have "takeWhile (\<lambda>x. x \<noteq> c) (rev (x # xs)) = rev (x # xs)"
        using all by (simp only: takeWhile_eq_all_conv) 
      ultimately show ?thesis by (simp only: rev_rev_ident)
    qed
  qed
qed




subsection \<open>The three parts of \<^verbatim>\<open>init_distributed_env\<close>\<close>

lemma normalize_env_run:
  "normalize_env w =
     (Inr (),
      w\<lparr>environ := (environ w)
           (''MASTER_ADDR'' \<mapsto> resolved_master_addr (environ w),
            ''RANK'' \<mapsto> fallback (environ w) ''RANK'' ''SLURM_PROCID'' ''0'',
            ''WORLD_SIZE'' \<mapsto> fallback (environ w) ''WORLD_SIZE'' ''SLURM_NTASKS'' ''1''),
        trace := trace w @
           [EnvGet ''SLURM_NODELIST'', EnvGet ''MASTER_ADDR'',
            EnvSet ''MASTER_ADDR'' (resolved_master_addr (environ w)),
            EnvGet ''SLURM_PROCID'', EnvGet ''RANK'',
            EnvSet ''RANK'' (fallback (environ w) ''RANK'' ''SLURM_PROCID'' ''0''),
            EnvGet ''SLURM_NTASKS'', EnvGet ''WORLD_SIZE'',
            EnvSet ''WORLD_SIZE'' (fallback (environ w) ''WORLD_SIZE'' ''SLURM_NTASKS'' ''1'')]\<rparr>)"
  by (simp add: normalize_env_def py_defs env_defs index_last_def split_on_nonempty
      last_split_on resolved_master_addr_def fallback_def last_comma_entry_def
      split: option.splits)

lemma environ_form_group_env: "environ (snd (form_group_env rt backend w)) = environ w"
  by (simp add: form_group_env_def py_defs env_defs dist_init_process_group_def
      synchronize_def dist_barrier_def logger_error_def
      split: option.splits sum.splits prod.splits)

lemma environ_bind_local_rank: "environ (snd (bind_local_rank rt w)) = environ w"
  by (simp add: bind_local_rank_def py_defs env_defs cuda_set_device_def
      split: option.splits sum.splits prod.splits)

lemma fst_bind_local_rank:
  "fst (bind_local_rank rt w) =
     (case py_int (fallback (environ w) ''LOCAL_RANK'' ''SLURM_LOCALID'' ''0'') of
        Inl e \<Rightarrow> Inl e
      | Inr n \<Rightarrow> (case set_device_rt rt n of Some e \<Rightarrow> Inl e | None \<Rightarrow> Inr n))"
  by (simp add: bind_local_rank_def py_defs env_defs cuda_set_device_def fallback_def
      split: option.splits sum.splits prod.splits)


lemma init_distributed_env_run:
  assumes "cuda_is_available rt"
  shows "init_distributed_env rt backend w =
           (case form_group_env rt backend (snd (normalize_env w)) of
              (Inl e, w2) \<Rightarrow> (Inl e, w2)
            | (Inr u, w2) \<Rightarrow> bind_local_rank rt w2)"
  using assms
  by (simp add: init_distributed_env_def py_defs normalize_env_run split: prod.splits sum.splits)

lemma environ_init_distributed_env:
  assumes "cuda_is_available rt"
  shows "environ (snd (init_distributed_env rt backend w)) = environ (snd (normalize_env w))"
proof (cases "form_group_env rt backend (snd (normalize_env w))")
  case (Pair r w2)
  have e2: "environ w2 = environ (snd (normalize_env w))"
    using environ_form_group_env [of rt backend "snd (normalize_env w)"] Pair by simp
  show ?thesis
  proof (cases r)
    case (Inl e)
    then show ?thesis using Pair e2 assms by (simp add: init_distributed_env_run)
  next
    case (Inr u)
    then show ?thesis
      using Pair e2 assms by (simp add: init_distributed_env_run environ_bind_local_rank)
  qed
qed

lemma fst_init_distributed_env_Inr:
  assumes "cuda_is_available rt" and "fst (init_distributed_env rt backend w) = Inr n"
  shows "py_int (fallback (environ w) ''LOCAL_RANK'' ''SLURM_LOCALID'' ''0'') = Inr n"
proof (cases "form_group_env rt backend (snd (normalize_env w))")
  case (Pair r w2)
  have e2: "environ w2 = environ (snd (normalize_env w))"
    using environ_form_group_env [of rt backend "snd (normalize_env w)"] Pair by simp
  have fb: "fallback (environ w2) ''LOCAL_RANK'' ''SLURM_LOCALID'' ''0''
            = fallback (environ w) ''LOCAL_RANK'' ''SLURM_LOCALID'' ''0''"
    by (simp add: e2 normalize_env_run fallback_def split: option.splits)
  show ?thesis
  proof (cases r)
    case (Inl e)
    then show ?thesis using Pair assms by (simp add: init_distributed_env_run)
  next
    case (Inr u)
    then have "fst (bind_local_rank rt w2) = Inr n"
      using Pair assms by (simp add: init_distributed_env_run)
    then show ?thesis
      by (simp add: fst_bind_local_rank fb split: sum.splits option.splits)
  qed
qed

subsection \<open>Resolution of the bootstrap parameters\<close>

text \<open>
  C1. With a device present, \<open>init_distributed_env\<close> leaves in the environment the
  address, rank and world size that the fallback chain of the specification resolves
  (override variable, then scheduler variable, then \<open>localhost\<close>, \<open>0\<close>, \<open>1\<close>; the
  scheduler's address is the last comma-separated entry of the node list), and whenever it
  returns an integer, that integer is \<^verbatim>\<open>int()\<close> of the local rank resolved by the same
  chain from \<open>LOCAL_RANK\<close>, \<open>SLURM_LOCALID\<close> and \<open>0\<close>.
\<close>

theorem init_env_fallback_chain:
  assumes "cuda_is_available rt"
  shows "environ (snd (init_distributed_env rt backend w)) ''MASTER_ADDR''
           = Some (resolved_master_addr (environ w))
       \<and> environ (snd (init_distributed_env rt backend w)) ''RANK''
           = Some (fallback (environ w) ''RANK'' ''SLURM_PROCID'' ''0'')
       \<and> environ (snd (init_distributed_env rt backend w)) ''WORLD_SIZE''
           = Some (fallback (environ w) ''WORLD_SIZE'' ''SLURM_NTASKS'' ''1'')
       \<and> (\<forall>n. fst (init_distributed_env rt backend w) = Inr n \<longrightarrow>
              py_int (fallback (environ w) ''LOCAL_RANK'' ''SLURM_LOCALID'' ''0'') = Inr n)"
  using assms fst_init_distributed_env_Inr [OF assms]
  by (simp add: environ_init_distributed_env normalize_env_run)

theorem init_env_fallback_chain_witness:
  "cuda_is_available cooperative_runtime
   \<and> environ (snd (init_distributed_env cooperative_runtime ''nccl'' slurm_world))
         ''MASTER_ADDR'' = Some ''node2''
   \<and> environ (snd (init_distributed_env cooperative_runtime ''nccl'' slurm_world))
         ''RANK'' = Some ''3''
   \<and> environ (snd (init_distributed_env cooperative_runtime ''nccl'' slurm_world))
         ''WORLD_SIZE'' = Some ''4''
   \<and> fst (init_distributed_env cooperative_runtime ''nccl'' slurm_world) = Inr 1
   \<and> py_int ''1'' = Inr 1"
proof -
  have h: "cuda_is_available cooperative_runtime"
    by (simp add: cooperative_runtime_def)
  have r: "fst (init_distributed_env cooperative_runtime ''nccl'' slurm_world) = Inr 1"
    by code_simp
  show ?thesis
    using h r init_env_fallback_chain [OF h, of "''nccl''" slurm_world]
    by (simp add: slurm_world_def fresh_world_def resolved_master_addr_def fallback_def
        last_comma_entry_def)
qed


subsection \<open>Failure at entry without a device\<close>

text \<open>
  C6. Without an accelerator device both initialization functions raise the assertion
  error of their first line (the spec's \<open>DeviceUnavailable\<close>) and leave the world as it
  was: no environment variable has been read or written, and the environment is the same.
\<close>

theorem no_device_fails_at_entry:
  assumes "\<not> cuda_is_available rt"
  shows "init_distributed_env rt backend w
           = (Inl (AssertionError ''Cannot use GPU, CUDA not found!''), w)
       \<and> init_distributed_tcp rt local_rank machine_rank num_gpus_per_machine num_machines
           dist_url backend w
           = (Inl (AssertionError ''Cannot use GPU, CUDA not found!''), w)"
  using assms
  by (simp add: init_distributed_env_def init_distributed_tcp_def py_bind_def
      py_assert_def py_raise_def)

theorem no_device_fails_at_entry_witness:
  "\<not> cuda_is_available deviceless_runtime
   \<and> init_distributed_env deviceless_runtime ''nccl''
         (fresh_world [(''MASTER_PORT'', ''29500''), (''WORLD_SIZE'', ''2'')])
       = (Inl (AssertionError ''Cannot use GPU, CUDA not found!''),
          fresh_world [(''MASTER_PORT'', ''29500''), (''WORLD_SIZE'', ''2'')])
   \<and> init_distributed_tcp deviceless_runtime 1 1 2 2 ''tcp://127.0.0.1:23456'' ''nccl''
         (fresh_world [(''MASTER_PORT'', ''29500''), (''WORLD_SIZE'', ''2'')])
       = (Inl (AssertionError ''Cannot use GPU, CUDA not found!''),
          fresh_world [(''MASTER_PORT'', ''29500''), (''WORLD_SIZE'', ''2'')])"
proof -
  have h: "\<not> cuda_is_available deviceless_runtime"
    by (simp add: deviceless_runtime_def cooperative_runtime_def)
  show ?thesis
    using h no_device_fails_at_entry [OF h] by simp
qed

subsection \<open>The values computed by \<^verbatim>\<open>init_distributed_tcp\<close>\<close>

lemma new_events_append: "trace w' = trace w @ evs \<Longrightarrow> new_events w w' = evs"
  by (simp add: new_events_def)

lemma init_tcp_calls:
  "\<forall>c. InitProcessGroup c \<in> set (new_events w (snd (init_distributed_tcp rt
        local_rank machine_rank num_gpus_per_machine num_machines dist_url backend w)))
     \<longrightarrow> ic_rank c = Some (tcp_world_rank machine_rank num_gpus_per_machine local_rank)
       \<and> ic_world_size c = Some (tcp_world_size num_machines num_gpus_per_machine)"
  by (auto simp add: init_distributed_tcp_def new_events_def py_defs env_defs rt_defs Let_def
      split: option.splits sum.splits prod.splits if_splits)

text \<open>
  C5. \<open>init_distributed_tcp\<close> computes the world size as
  \<open>num_machines * num_gpus_per_machine\<close> and the rank as
  \<open>machine_rank * num_gpus_per_machine + local_rank\<close>, for all integers. With a device
  present and a world size above one, the first thing the function does is to ask the
  runtime for a group with exactly these two values; with a world size of one or less it
  asks for no group at all. For local rank 1 on machine 1 of 2 machines with 2 devices
  each, the world size is 4 and the rank is 3.
\<close>

theorem init_tcp_world_size_and_rank:
  assumes "cuda_is_available rt"
  shows "tcp_world_size num_machines num_gpus_per_machine
           = num_machines * num_gpus_per_machine
       \<and> tcp_world_rank machine_rank num_gpus_per_machine local_rank
           = machine_rank * num_gpus_per_machine + local_rank
       \<and> (num_machines * num_gpus_per_machine > 1 \<longrightarrow>
            take 1 (new_events w (snd (init_distributed_tcp rt local_rank machine_rank
                      num_gpus_per_machine num_machines dist_url backend w)))
              = [InitProcessGroup
                   \<lparr>ic_backend = backend, ic_init_method = dist_url,
                    ic_world_size = Some (num_machines * num_gpus_per_machine),
                    ic_rank = Some (machine_rank * num_gpus_per_machine + local_rank)\<rparr>])
       \<and> (\<not> num_machines * num_gpus_per_machine > 1 \<longrightarrow>
            (\<forall>c. InitProcessGroup c \<notin> set (new_events w (snd (init_distributed_tcp rt
                      local_rank machine_rank num_gpus_per_machine num_machines dist_url
                      backend w)))))"
  using assms
  by (auto simp add: init_distributed_tcp_def tcp_world_size_def tcp_world_rank_def
      new_events_def py_defs env_defs rt_defs Let_def
      split: option.splits sum.splits prod.splits)

theorem init_tcp_world_size_and_rank_witness:
  "cuda_is_available cooperative_runtime
   \<and> tcp_world_size 2 2 = 4 \<and> tcp_world_rank 1 2 1 = 3
   \<and> (2 * 2 > (1::int))
   \<and> take 1 (new_events (fresh_world [])
        (snd (init_distributed_tcp cooperative_runtime 1 1 2 2 ''tcp://127.0.0.1:23456''
               ''nccl'' (fresh_world []))))
       = [InitProcessGroup
            \<lparr>ic_backend = ''nccl'', ic_init_method = ''tcp://127.0.0.1:23456'',
             ic_world_size = Some 4, ic_rank = Some 3\<rparr>]
   \<and> get_world_size (snd (init_distributed_tcp cooperative_runtime 1 1 2 2
        ''tcp://127.0.0.1:23456'' ''nccl'' (fresh_world []))) = 4
   \<and> get_rank (snd (init_distributed_tcp cooperative_runtime 1 1 2 2
        ''tcp://127.0.0.1:23456'' ''nccl'' (fresh_world []))) = 3"
proof -
  have h: "cuda_is_available cooperative_runtime"
    by (simp add: cooperative_runtime_def)
  have q: "get_world_size (snd (init_distributed_tcp cooperative_runtime 1 1 2 2
        ''tcp://127.0.0.1:23456'' ''nccl'' (fresh_world []))) = 4
      \<and> get_rank (snd (init_distributed_tcp cooperative_runtime 1 1 2 2
        ''tcp://127.0.0.1:23456'' ''nccl'' (fresh_world []))) = 3"
    by code_simp
  show ?thesis
    using h q init_tcp_world_size_and_rank [OF h, of 2 2 1 1 "fresh_world []"
        "''tcp://127.0.0.1:23456''" "''nccl''"]
    by simp
qed

subsection \<open>The rank invariant\<close>

text \<open>
  C2 (amended). Neither function checks the arguments or the environment, so the invariant
  \<open>0 \<le> local_rank \<le> rank < world_size\<close> holds only for inputs in range: when
  \<open>0 \<le> local_rank < num_gpus_per_machine\<close> and \<open>0 \<le> machine_rank < num_machines\<close>,
  the rank and world size that \<open>init_distributed_tcp\<close> computes satisfy it, and these are
  the values of every group the function asks the runtime to form.
\<close>

theorem tcp_rank_invariant:
  assumes "0 \<le> local_rank" and "local_rank < num_gpus_per_machine"
    and "0 \<le> machine_rank" and "machine_rank < num_machines"
  shows "0 \<le> local_rank
       \<and> local_rank \<le> tcp_world_rank machine_rank num_gpus_per_machine local_rank
       \<and> tcp_world_rank machine_rank num_gpus_per_machine local_rank
           < tcp_world_size num_machines num_gpus_per_machine
       \<and> (\<forall>c. InitProcessGroup c \<in> set (new_events w (snd (init_distributed_tcp rt
               local_rank machine_rank num_gpus_per_machine num_machines dist_url backend w)))
            \<longrightarrow> ic_rank c = Some (tcp_world_rank machine_rank num_gpus_per_machine local_rank)
              \<and> ic_world_size c = Some (tcp_world_size num_machines num_gpus_per_machine))"
proof -
  have g: "0 < num_gpus_per_machine" using assms by simp
  have a: "0 \<le> machine_rank * num_gpus_per_machine"
    using assms g by simp
  have "(machine_rank + 1) * num_gpus_per_machine \<le> num_machines * num_gpus_per_machine"
    using assms g by (intro mult_right_mono) simp_all
  then have b: "machine_rank * num_gpus_per_machine + num_gpus_per_machine
      \<le> num_machines * num_gpus_per_machine"
    by (simp add: algebra_simps)
  have inv: "local_rank \<le> machine_rank * num_gpus_per_machine + local_rank
      \<and> machine_rank * num_gpus_per_machine + local_rank
          < num_machines * num_gpus_per_machine"
    using assms a b by linarith
  have calls: "\<forall>c. InitProcessGroup c \<in> set (new_events w (snd (init_distributed_tcp rt
               local_rank machine_rank num_gpus_per_machine num_machines dist_url backend w)))
            \<longrightarrow> ic_rank c = Some (tcp_world_rank machine_rank num_gpus_per_machine local_rank)
              \<and> ic_world_size c = Some (tcp_world_size num_machines num_gpus_per_machine)"
    by (rule init_tcp_calls)
  show ?thesis
    using assms(1) inv calls by (simp add: tcp_world_rank_def tcp_world_size_def)
qed

theorem tcp_rank_invariant_witness:
  "(0::int) \<le> 1 \<and> (1::int) < 2 \<and> (0::int) \<le> 1 \<and> (1::int) < 2
   \<and> (1::int) \<le> tcp_world_rank 1 2 1 \<and> tcp_world_rank 1 2 1 < tcp_world_size 2 2
   \<and> InitProcessGroup
         \<lparr>ic_backend = ''nccl'', ic_init_method = ''tcp://127.0.0.1:23456'',
          ic_world_size = Some 4, ic_rank = Some 3\<rparr>
       \<in> set (new_events (fresh_world [])
           (snd (init_distributed_tcp cooperative_runtime 1 1 2 2 ''tcp://127.0.0.1:23456''
                  ''nccl'' (fresh_world []))))
   \<and> tcp_world_rank 1 2 1 = 3 \<and> tcp_world_size 2 2 = 4"
proof -
  have m: "InitProcessGroup
         \<lparr>ic_backend = ''nccl'', ic_init_method = ''tcp://127.0.0.1:23456'',
          ic_world_size = Some 4, ic_rank = Some 3\<rparr>
       \<in> set (new_events (fresh_world [])
           (snd (init_distributed_tcp cooperative_runtime 1 1 2 2 ''tcp://127.0.0.1:23456''
                  ''nccl'' (fresh_world []))))"
    by code_simp
  show ?thesis
    using m tcp_rank_invariant [of 1 2 1 2 "fresh_world []" cooperative_runtime
        "''tcp://127.0.0.1:23456''" "''nccl''"]
    by auto
qed

text \<open>
  C2 as stated. Taken over every resolved configuration, the invariant fails on both
  functions. \<open>init_distributed_tcp\<close> with local rank 1 on the only machine with one
  device returns 1 after computing rank 1 and world size 1. \<open>init_distributed_env\<close>
  with \<open>RANK=5\<close> and nothing else set returns 0 and leaves rank 5 with world size 1.
\<close>

theorem rank_invariant_counterexample:
  "fst (init_distributed_tcp cooperative_runtime 1 0 1 1 ''tcp://127.0.0.1:23456'' ''nccl''
          (fresh_world [])) = Inr 1
   \<and> \<not> (0 \<le> (1::int) \<and> 1 \<le> tcp_world_rank 0 1 1
          \<and> tcp_world_rank 0 1 1 < tcp_world_size 1 1)
   \<and> fst (init_distributed_env cooperative_runtime ''nccl'' (fresh_world [(''RANK'', ''5'')]))
       = Inr 0
   \<and> environ (snd (init_distributed_env cooperative_runtime ''nccl''
          (fresh_world [(''RANK'', ''5'')]))) ''RANK'' = Some ''5''
   \<and> environ (snd (init_distributed_env cooperative_runtime ''nccl''
          (fresh_world [(''RANK'', ''5'')]))) ''WORLD_SIZE'' = Some ''1''
   \<and> py_int ''5'' = Inr 5 \<and> py_int ''1'' = Inr 1 \<and> \<not> ((5::int) < 1)"
  by code_simp

subsection \<open>Queries without a process group\<close>

text \<open>
  C4. In a world without a process group every query answers its default: the rank is 0,
  the world size is 1, the process is the master, \<open>synchronize\<close> returns at once
  without reaching the barrier (the world, and so its trace, is unchanged), and
  \<open>average_across_processes\<close> returns its argument without calling the runtime.
\<close>

theorem single_process_defaults:
  assumes "group w = None"
  shows "get_rank w = 0 \<and> get_world_size w = 1 \<and> is_master_process w
       \<and> synchronize rt w = (Inr (), w)
       \<and> average_across_processes ops t w = (Inr t, w)"
  using assms
  by (simp add: get_rank_def get_world_size_def is_master_process_def synchronize_def
      is_initialized_def average_across_processes_def py_return_def)

theorem single_process_defaults_witness:
  "group (snd (init_distributed_env cooperative_runtime ''nccl'' (fresh_world []))) = None
   \<and> get_rank (snd (init_distributed_env cooperative_runtime ''nccl'' (fresh_world []))) = 0
   \<and> get_world_size (snd (init_distributed_env cooperative_runtime ''nccl'' (fresh_world [])))
       = 1
   \<and> is_master_process (snd (init_distributed_env cooperative_runtime ''nccl'' (fresh_world [])))
   \<and> synchronize cooperative_runtime
         (snd (init_distributed_env cooperative_runtime ''nccl'' (fresh_world [])))
       = (Inr (), snd (init_distributed_env cooperative_runtime ''nccl'' (fresh_world [])))
   \<and> average_across_processes absent_collective [3, 5]
         (snd (init_distributed_env cooperative_runtime ''nccl'' (fresh_world [])))
       = (Inr [3, 5], snd (init_distributed_env cooperative_runtime ''nccl'' (fresh_world [])))"
proof -
  have h: "group (snd (init_distributed_env cooperative_runtime ''nccl'' (fresh_world [])))
             = None"
    by code_simp
  show ?thesis
    using h single_process_defaults [OF h, of cooperative_runtime absent_collective "[3, 5]"]
    by simp
qed

subsection \<open>The master process\<close>

lemma group_bind_local_rank: "group (snd (bind_local_rank rt w)) = group w"
  by (simp add: bind_local_rank_def py_defs env_defs cuda_set_device_def
      split: option.splits sum.splits prod.splits)

lemma form_group_env_success:
  assumes "form_group_env rt backend w = (Inr u, w')"
    and "environ w ''WORLD_SIZE'' = Some s" and "parse_int s = Some n" and "1 < n"
  shows "\<exists>g. init_process_group_rt rt
                \<lparr>ic_backend = backend, ic_init_method = ''env://'',
                 ic_world_size = None, ic_rank = None\<rparr> (environ w) = Inr g
             \<and> group w' = Some g"
  using assms
  by (auto simp add: form_group_env_def py_defs env_defs rt_defs py_int_def
      split: option.splits sum.splits prod.splits if_splits)

text \<open>
  C7. In every world \<open>is_master_process\<close> holds exactly when \<open>get_rank\<close> is 0. After a
  successful \<open>init_distributed_env\<close> with \<open>RANK=2\<close> and \<open>WORLD_SIZE=4\<close>, on a runtime
  whose rendezvous through the environment gives the process the rank that \<open>RANK\<close>
  names, \<open>get_rank\<close> is 2 and \<open>is_master_process\<close> is false.
\<close>

theorem master_iff_rank_zero:
  assumes contract: "\<And>c env g r. ic_init_method c = ''env://'' \<Longrightarrow>
              init_process_group_rt rt c env = Inr g \<Longrightarrow> env ''RANK'' = Some r \<Longrightarrow>
              parse_int r = Some (pg_rank g)"
    and rank: "environ w ''RANK'' = Some ''2''"
    and size: "environ w ''WORLD_SIZE'' = Some ''4''"
    and ok: "fst (init_distributed_env rt backend w) = Inr local_rank"
  shows "(\<forall>s. is_master_process s = (get_rank s = 0))
       \<and> get_rank (snd (init_distributed_env rt backend w)) = 2
       \<and> \<not> is_master_process (snd (init_distributed_env rt backend w))"
proof -
  have cuda: "cuda_is_available rt"
    using ok by (auto simp add: init_distributed_env_def py_defs split: if_splits)
  let ?w1 = "snd (normalize_env w)"
  have env1: "environ ?w1 ''RANK'' = Some ''2''" "environ ?w1 ''WORLD_SIZE'' = Some ''4''"
    using rank size by (simp_all add: normalize_env_run fallback_def)
  have four: "parse_int ''4'' = Some 4" by code_simp
  have two: "parse_int ''2'' = Some 2" by code_simp
  obtain r w2 where fg: "form_group_env rt backend ?w1 = (r, w2)"
    by (cases "form_group_env rt backend ?w1")
  from ok cuda fg obtain u where r: "r = Inr u"
    by (cases r) (simp_all add: init_distributed_env_run)
  from form_group_env_success [OF fg [unfolded r] env1(2) four]
  obtain g where g: "init_process_group_rt rt
                \<lparr>ic_backend = backend, ic_init_method = ''env://'',
                 ic_world_size = None, ic_rank = None\<rparr> (environ ?w1) = Inr g"
    and gw: "group w2 = Some g" by auto
  have "parse_int ''2'' = Some (pg_rank g)"
    using contract [OF _ g env1(1)] by simp
  then have pg: "pg_rank g = 2" using two by simp
  have "snd (init_distributed_env rt backend w) = snd (bind_local_rank rt w2)"
    using cuda fg r by (simp add: init_distributed_env_run)
  then have "group (snd (init_distributed_env rt backend w)) = Some g"
    using gw by (simp add: group_bind_local_rank)
  then show ?thesis
    using pg by (simp add: is_master_process_def get_rank_def)
qed

theorem master_iff_rank_zero_witness:
  "environ rank2_world ''RANK'' = Some ''2''
   \<and> environ rank2_world ''WORLD_SIZE'' = Some ''4''
   \<and> fst (init_distributed_env cooperative_runtime ''nccl'' rank2_world) = Inr 0
   \<and> get_rank (snd (init_distributed_env cooperative_runtime ''nccl'' rank2_world)) = 2
   \<and> \<not> is_master_process (snd (init_distributed_env cooperative_runtime ''nccl'' rank2_world))
   \<and> is_master_process rank2_world = (get_rank rank2_world = 0)"
proof -
  have c: "\<And>c env g r. ic_init_method c = ''env://'' \<Longrightarrow>
              init_process_group_rt cooperative_runtime c env = Inr g \<Longrightarrow>
              env ''RANK'' = Some r \<Longrightarrow> parse_int r = Some (pg_rank g)"
    by (auto simp add: cooperative_runtime_def env_group_def split: option.splits)
  have r: "environ rank2_world ''RANK'' = Some ''2''"
    by (simp add: rank2_world_def fresh_world_def)
  have s: "environ rank2_world ''WORLD_SIZE'' = Some ''4''"
    by (simp add: rank2_world_def fresh_world_def)
  have ok: "fst (init_distributed_env cooperative_runtime ''nccl'' rank2_world) = Inr 0"
    by code_simp
  show ?thesis
    using r s ok master_iff_rank_zero [OF c r s ok] by simp
qed

subsection \<open>The environment keys written\<close>

lemma trace_form_group_env:
  "trace (snd (form_group_env rt backend w))
     = trace w @ new_events w (snd (form_group_env rt backend w))"
  by (simp add: form_group_env_def new_events_def py_defs env_defs rt_defs
      split: option.splits sum.splits prod.splits)

lemma writes_form_group_env:
  "EnvSet k v \<notin> set (new_events w (snd (form_group_env rt backend w)))"
  by (simp add: form_group_env_def new_events_def py_defs env_defs rt_defs
      split: option.splits sum.splits prod.splits)

lemma trace_bind_local_rank:
  "trace (snd (bind_local_rank rt w)) = trace w @ new_events w (snd (bind_local_rank rt w))"
  by (simp add: bind_local_rank_def new_events_def py_defs env_defs rt_defs
      split: option.splits sum.splits prod.splits)

lemma writes_bind_local_rank:
  "EnvSet k v \<notin> set (new_events w (snd (bind_local_rank rt w)))"
  by (simp add: bind_local_rank_def new_events_def py_defs env_defs rt_defs
      split: option.splits sum.splits prod.splits)

lemma reads_bind_local_rank:
  "EnvGet ''MASTER_PORT'' \<notin> set (new_events w (snd (bind_local_rank rt w)))"
  by (simp add: bind_local_rank_def new_events_def py_defs env_defs rt_defs
      split: option.splits sum.splits prod.splits)

lemma new_events_normalize_env:
  "new_events w (snd (normalize_env w)) =
     [EnvGet ''SLURM_NODELIST'', EnvGet ''MASTER_ADDR'',
      EnvSet ''MASTER_ADDR'' (resolved_master_addr (environ w)),
      EnvGet ''SLURM_PROCID'', EnvGet ''RANK'',
      EnvSet ''RANK'' (fallback (environ w) ''RANK'' ''SLURM_PROCID'' ''0''),
      EnvGet ''SLURM_NTASKS'', EnvGet ''WORLD_SIZE'',
      EnvSet ''WORLD_SIZE'' (fallback (environ w) ''WORLD_SIZE'' ''SLURM_NTASKS'' ''1'')]"
  by (simp add: normalize_env_run new_events_def)

lemma snd_init_distributed_env:
  assumes "cuda_is_available rt"
  shows "snd (init_distributed_env rt backend w) =
           (case fst (form_group_env rt backend (snd (normalize_env w))) of
              Inl e \<Rightarrow> snd (form_group_env rt backend (snd (normalize_env w)))
            | Inr u \<Rightarrow> snd (bind_local_rank rt
                               (snd (form_group_env rt backend (snd (normalize_env w))))))"
proof (cases "form_group_env rt backend (snd (normalize_env w))")
  case (Pair r w2)
  then show ?thesis
    using assms by (cases r) (simp_all add: init_distributed_env_run)
qed

lemma new_events_init_distributed_env:
  assumes "cuda_is_available rt"
  shows "new_events w (snd (init_distributed_env rt backend w)) =
           new_events w (snd (normalize_env w))
           @ new_events (snd (normalize_env w))
               (snd (form_group_env rt backend (snd (normalize_env w))))
           @ (case fst (form_group_env rt backend (snd (normalize_env w))) of
                Inl e \<Rightarrow> []
              | Inr u \<Rightarrow> new_events (snd (form_group_env rt backend (snd (normalize_env w))))
                          (snd (bind_local_rank rt
                             (snd (form_group_env rt backend (snd (normalize_env w)))))))"
proof -
  let ?w1 = "snd (normalize_env w)"
  let ?w2 = "snd (form_group_env rt backend ?w1)"
  have t1: "trace ?w1 = trace w @ new_events w ?w1"
    by (simp add: normalize_env_run new_events_def)
  have t2: "trace ?w2 = trace w @ new_events w ?w1 @ new_events ?w1 ?w2"
    using trace_form_group_env [of rt backend ?w1] t1 by simp
  show ?thesis
  proof (cases "fst (form_group_env rt backend ?w1)")
    case (Inl e)
    then have "snd (init_distributed_env rt backend w) = ?w2"
      using assms by (simp add: snd_init_distributed_env)
    then have "trace (snd (init_distributed_env rt backend w))
        = trace w @ (new_events w ?w1 @ new_events ?w1 ?w2)"
      using t2 by simp
    from new_events_append [OF this] show ?thesis using Inl by simp
  next
    case (Inr u)
    then have "snd (init_distributed_env rt backend w) = snd (bind_local_rank rt ?w2)"
      using assms by (simp add: snd_init_distributed_env)
    moreover have "trace (snd (bind_local_rank rt ?w2))
        = trace w @ (new_events w ?w1 @ new_events ?w1 ?w2
          @ new_events ?w2 (snd (bind_local_rank rt ?w2)))"
      using trace_bind_local_rank [of rt ?w2] t2 by simp
    ultimately have "trace (snd (init_distributed_env rt backend w))
        = trace w @ (new_events w ?w1 @ new_events ?w1 ?w2
          @ new_events ?w2 (snd (bind_local_rank rt ?w2)))"
      by simp
    from new_events_append [OF this] show ?thesis using Inr by simp
  qed
qed

text \<open>
  C10. \<open>init_distributed_env\<close> writes no environment key other than \<open>MASTER_ADDR\<close>,
  \<open>RANK\<close> and \<open>WORLD_SIZE\<close>: every other key, among them \<open>LOCAL_RANK\<close>,
  \<open>SLURM_LOCALID\<close> and \<open>MASTER_PORT\<close>, has after the call the value it had before, and
  every write the call performs is to one of the three keys. The local rank is returned
  and never written back.
\<close>

theorem init_env_writes_three_keys:
  "(k \<notin> {''MASTER_ADDR'', ''RANK'', ''WORLD_SIZE''} \<longrightarrow>
      environ (snd (init_distributed_env rt backend w)) k = environ w k)
   \<and> (\<forall>k' v. EnvSet k' v \<in> set (new_events w (snd (init_distributed_env rt backend w)))
        \<longrightarrow> k' \<in> {''MASTER_ADDR'', ''RANK'', ''WORLD_SIZE''})"
proof (cases "cuda_is_available rt")
  case False
  then have "init_distributed_env rt backend w
      = (Inl (AssertionError ''Cannot use GPU, CUDA not found!''), w)"
    by (simp add: init_distributed_env_def py_defs)
  then show ?thesis by (simp add: new_events_def)
next
  case True
  have env: "k \<notin> {''MASTER_ADDR'', ''RANK'', ''WORLD_SIZE''} \<longrightarrow>
      environ (snd (init_distributed_env rt backend w)) k = environ w k"
    using True by (simp add: environ_init_distributed_env normalize_env_run)
  have wr: "\<forall>k' v. EnvSet k' v \<in> set (new_events w (snd (init_distributed_env rt backend w)))
        \<longrightarrow> k' \<in> {''MASTER_ADDR'', ''RANK'', ''WORLD_SIZE''}"
  proof (intro allI impI)
    fix k' v
    let ?w1 = "snd (normalize_env w)"
    let ?w2 = "snd (form_group_env rt backend ?w1)"
    let ?tail = "case fst (form_group_env rt backend ?w1) of
                   Inl e \<Rightarrow> []
                 | Inr u \<Rightarrow> new_events ?w2 (snd (bind_local_rank rt ?w2))"
    assume "EnvSet k' v \<in> set (new_events w (snd (init_distributed_env rt backend w)))"
    then have "EnvSet k' v \<in> set (new_events w ?w1) \<or> EnvSet k' v \<in> set (new_events ?w1 ?w2)
        \<or> EnvSet k' v \<in> set ?tail"
      using True by (simp add: new_events_init_distributed_env [of rt w backend])
    moreover have "EnvSet k' v \<notin> set (new_events ?w1 ?w2)"
      by (rule writes_form_group_env)
    moreover have "EnvSet k' v \<notin> set ?tail"
      using writes_bind_local_rank [of k' v ?w2 rt] by (simp split: sum.splits)
    ultimately have "EnvSet k' v \<in> set (new_events w ?w1)" by blast
    then show "k' \<in> {''MASTER_ADDR'', ''RANK'', ''WORLD_SIZE''}"
      by (auto simp add: new_events_normalize_env)
  qed
  show ?thesis using env wr by blast
qed

theorem init_env_writes_three_keys_witness:
  "''SLURM_LOCALID'' \<notin> {''MASTER_ADDR'', ''RANK'', ''WORLD_SIZE''}
   \<and> environ (snd (init_distributed_env cooperative_runtime ''nccl'' slurm_world))
         ''SLURM_LOCALID'' = Some ''1''
   \<and> EnvSet ''RANK'' ''3''
       \<in> set (new_events slurm_world
                (snd (init_distributed_env cooperative_runtime ''nccl'' slurm_world)))
   \<and> ''RANK'' \<in> {''MASTER_ADDR'', ''RANK'', ''WORLD_SIZE''}"
proof -
  have m: "EnvSet ''RANK'' ''3''
       \<in> set (new_events slurm_world
                (snd (init_distributed_env cooperative_runtime ''nccl'' slurm_world)))"
    by code_simp
  have e: "environ slurm_world ''SLURM_LOCALID'' = Some ''1''"
    by (simp add: slurm_world_def fresh_world_def)
  show ?thesis
    using m e init_env_writes_three_keys [of "''SLURM_LOCALID''" cooperative_runtime
        "''nccl''" slurm_world]
    by simp
qed

subsection \<open>The single-process path and the port\<close>

lemma form_group_env_single:
  assumes "environ w ''WORLD_SIZE'' = Some s" and "parse_int s = Some n" and "n \<le> 1"
  shows "form_group_env rt backend w = (Inr (), emit (EnvGet ''WORLD_SIZE'') w)"
  using assms by (simp add: form_group_env_def py_defs env_defs py_int_def)

lemma fallback_after_normalize_env:
  "fallback (environ (snd (normalize_env w))) ''LOCAL_RANK'' ''SLURM_LOCALID'' ''0''
     = fallback (environ w) ''LOCAL_RANK'' ''SLURM_LOCALID'' ''0''"
  by (simp add: normalize_env_run fallback_def split: option.splits)

lemma single_process_result:
  assumes "cuda_is_available rt"
    and "parse_int (fallback (environ w) ''WORLD_SIZE'' ''SLURM_NTASKS'' ''1'') = Some n"
    and "n \<le> 1"
  shows "fst (init_distributed_env rt backend w) =
           (case py_int (fallback (environ w) ''LOCAL_RANK'' ''SLURM_LOCALID'' ''0'') of
              Inl e \<Rightarrow> Inl e
            | Inr local_rank \<Rightarrow>
                (case set_device_rt rt local_rank of
                   Some e \<Rightarrow> Inl e
                 | None \<Rightarrow> Inr local_rank))"
proof -
  let ?w1 = "snd (normalize_env w)"
  let ?w2 = "emit (EnvGet ''WORLD_SIZE'') ?w1"
  have ws: "environ ?w1 ''WORLD_SIZE''
      = Some (fallback (environ w) ''WORLD_SIZE'' ''SLURM_NTASKS'' ''1'')"
    by (simp add: normalize_env_run)
  have fg: "form_group_env rt backend ?w1 = (Inr (), ?w2)"
    using ws assms(2,3) by (rule form_group_env_single)
  have run: "init_distributed_env rt backend w = bind_local_rank rt ?w2"
    using assms(1) fg by (simp add: init_distributed_env_run)
  have env2: "environ ?w2 = environ ?w1" by (simp add: emit_def)
  show ?thesis
    by (simp add: run fst_bind_local_rank env2 fallback_after_normalize_env)
qed

lemma fallback_other_key:
  "k \<noteq> override \<Longrightarrow> k \<noteq> scheduler \<Longrightarrow>
   fallback (env(k := p)) override scheduler dflt = fallback env override scheduler dflt"
  by (simp add: fallback_def split: option.splits)

text \<open>
  C9. With a device present and a world size that resolves to an integer of at most one,
  \<open>init_distributed_env\<close> never looks \<open>MASTER_PORT\<close> up: lines 52 to 62 complete
  without raising, so the handler with the only lookup of \<open>MASTER_PORT\<close> is not
  entered. The call then completes as it would with \<open>MASTER_PORT\<close> set to anything:
  its outcome is that of lines 64 to 70 alone, the local rank when the resolved local rank
  is an integer literal and the device binding succeeds, and it is the same outcome
  whether \<open>MASTER_PORT\<close> is absent or present.
\<close>

theorem single_process_ignores_master_port:
  assumes "cuda_is_available rt"
    and "parse_int (fallback (environ w) ''WORLD_SIZE'' ''SLURM_NTASKS'' ''1'') = Some n"
    and "n \<le> 1"
  shows "EnvGet ''MASTER_PORT'' \<notin> set (new_events w (snd (init_distributed_env rt backend w)))
       \<and> fst (form_group_env rt backend (snd (normalize_env w))) = Inr ()
       \<and> fst (init_distributed_env rt backend w) =
           (case py_int (fallback (environ w) ''LOCAL_RANK'' ''SLURM_LOCALID'' ''0'') of
              Inl e \<Rightarrow> Inl e
            | Inr local_rank \<Rightarrow>
                (case set_device_rt rt local_rank of
                   Some e \<Rightarrow> Inl e
                 | None \<Rightarrow> Inr local_rank))
       \<and> (\<forall>p. fst (init_distributed_env rt backend
                     (w\<lparr>environ := (environ w)(''MASTER_PORT'' := p)\<rparr>))
              = fst (init_distributed_env rt backend w))"
proof -
  let ?w1 = "snd (normalize_env w)"
  let ?w2 = "emit (EnvGet ''WORLD_SIZE'') ?w1"
  have ws: "environ ?w1 ''WORLD_SIZE''
      = Some (fallback (environ w) ''WORLD_SIZE'' ''SLURM_NTASKS'' ''1'')"
    by (simp add: normalize_env_run)
  have fg: "form_group_env rt backend ?w1 = (Inr (), ?w2)"
    using ws assms(2,3) by (rule form_group_env_single)
  have "new_events w (snd (init_distributed_env rt backend w)) =
          new_events w ?w1 @ new_events ?w1 ?w2
          @ new_events ?w2 (snd (bind_local_rank rt ?w2))"
    using assms(1) fg by (simp add: new_events_init_distributed_env [of rt w backend])
  moreover have "new_events ?w1 ?w2 = [EnvGet ''WORLD_SIZE'']"
    by (simp add: new_events_def emit_def)
  moreover have "EnvGet ''MASTER_PORT'' \<notin> set (new_events ?w2 (snd (bind_local_rank rt ?w2)))"
    by (rule reads_bind_local_rank)
  ultimately have reads: "EnvGet ''MASTER_PORT''
      \<notin> set (new_events w (snd (init_distributed_env rt backend w)))"
    by (simp add: new_events_normalize_env)
  have res: "fst (init_distributed_env rt backend w) =
           (case py_int (fallback (environ w) ''LOCAL_RANK'' ''SLURM_LOCALID'' ''0'') of
              Inl e \<Rightarrow> Inl e
            | Inr local_rank \<Rightarrow>
                (case set_device_rt rt local_rank of
                   Some e \<Rightarrow> Inl e
                 | None \<Rightarrow> Inr local_rank))"
    using assms by (rule single_process_result)
  have indep: "\<forall>p. fst (init_distributed_env rt backend
                     (w\<lparr>environ := (environ w)(''MASTER_PORT'' := p)\<rparr>))
              = fst (init_distributed_env rt backend w)"
  proof
    fix p
    let ?w' = "w\<lparr>environ := (environ w)(''MASTER_PORT'' := p)\<rparr>"
    have size': "parse_int (fallback (environ ?w') ''WORLD_SIZE'' ''SLURM_NTASKS'' ''1'') = Some n"
      using assms(2) by (simp add: fallback_other_key)
    have "fst (init_distributed_env rt backend ?w') =
           (case py_int (fallback (environ ?w') ''LOCAL_RANK'' ''SLURM_LOCALID'' ''0'') of
              Inl e \<Rightarrow> Inl e
            | Inr local_rank \<Rightarrow>
                (case set_device_rt rt local_rank of
                   Some e \<Rightarrow> Inl e
                 | None \<Rightarrow> Inr local_rank))"
      using assms(1) size' assms(3) by (rule single_process_result)
    then show "fst (init_distributed_env rt backend ?w') = fst (init_distributed_env rt backend w)"
      by (simp add: res fallback_other_key)
  qed
  show ?thesis using reads fg res indep by simp
qed

theorem single_process_ignores_master_port_witness:
  "cuda_is_available cooperative_runtime
   \<and> parse_int (fallback (environ (fresh_world [(''LOCAL_RANK'', ''0'')]))
        ''WORLD_SIZE'' ''SLURM_NTASKS'' ''1'') = Some 1
   \<and> (1::int) \<le> 1
   \<and> environ (fresh_world [(''LOCAL_RANK'', ''0'')]) ''MASTER_PORT'' = None
   \<and> EnvGet ''MASTER_PORT''
       \<notin> set (new_events (fresh_world [(''LOCAL_RANK'', ''0'')])
            (snd (init_distributed_env cooperative_runtime ''nccl''
                   (fresh_world [(''LOCAL_RANK'', ''0'')]))))
   \<and> fst (form_group_env cooperative_runtime ''nccl''
            (snd (normalize_env (fresh_world [(''LOCAL_RANK'', ''0'')])))) = Inr ()
   \<and> fst (init_distributed_env cooperative_runtime ''nccl''
            (fresh_world [(''LOCAL_RANK'', ''0'')])) = Inr 0
   \<and> fst (init_distributed_env cooperative_runtime ''nccl''
            ((fresh_world [(''LOCAL_RANK'', ''0'')])
               \<lparr>environ := (environ (fresh_world [(''LOCAL_RANK'', ''0'')]))
                    (''MASTER_PORT'' := Some ''29500'')\<rparr>)) = Inr 0"
proof -
  have h: "cuda_is_available cooperative_runtime"
    by (simp add: cooperative_runtime_def)
  have p: "parse_int (fallback (environ (fresh_world [(''LOCAL_RANK'', ''0'')]))
        ''WORLD_SIZE'' ''SLURM_NTASKS'' ''1'') = Some 1"
    by code_simp
  have l: "py_int (fallback (environ (fresh_world [(''LOCAL_RANK'', ''0'')]))
        ''LOCAL_RANK'' ''SLURM_LOCALID'' ''0'') = Inr 0"
    by code_simp
  have d: "set_device_rt cooperative_runtime 0 = None"
    by (simp add: cooperative_runtime_def)
  have m: "environ (fresh_world [(''LOCAL_RANK'', ''0'')]) ''MASTER_PORT'' = None"
    by (simp add: fresh_world_def)
  show ?thesis
    using h p m single_process_ignores_master_port [OF h p, of "''nccl''"]
    by (simp add: l d)
qed

subsection \<open>Failure of the group initialization\<close>

text \<open>
  When the rendezvous fails, \<open>init_distributed_tcp\<close> logs the URL and raises the same
  error, and so does the handler of \<open>init_distributed_env\<close> as long as \<open>MASTER_PORT\<close>
  is set. Without \<open>MASTER_PORT\<close> the handler itself fails while it builds the message.
\<close>

lemma init_tcp_failure_logged:
  assumes "cuda_is_available rt"
    and "1 < num_machines * num_gpus_per_machine"
    and "init_process_group_rt rt
           \<lparr>ic_backend = backend, ic_init_method = dist_url,
            ic_world_size = Some (num_machines * num_gpus_per_machine),
            ic_rank = Some (machine_rank * num_gpus_per_machine + local_rank)\<rparr>
           (environ w) = Inl e"
  shows "init_distributed_tcp rt local_rank machine_rank num_gpus_per_machine num_machines
           dist_url backend w =
         (Inl e,
          w\<lparr>trace := trace w @
             [InitProcessGroup
                \<lparr>ic_backend = backend, ic_init_method = dist_url,
                 ic_world_size = Some (num_machines * num_gpus_per_machine),
                 ic_rank = Some (machine_rank * num_gpus_per_machine + local_rank)\<rparr>,
              LogError (''Dist URL: '' @ dist_url)]\<rparr>)"
  using assms
  by (simp add: init_distributed_tcp_def tcp_world_size_def tcp_world_rank_def py_defs
      env_defs rt_defs)

lemma form_group_env_failure_logged:
  assumes "environ w ''WORLD_SIZE'' = Some s" and "parse_int s = Some n" and "1 < n"
    and "init_process_group_rt rt
           \<lparr>ic_backend = backend, ic_init_method = ''env://'',
            ic_world_size = None, ic_rank = None\<rparr> (environ w) = Inl e"
    and "environ w ''MASTER_ADDR'' = Some addr" and "environ w ''MASTER_PORT'' = Some port"
  shows "form_group_env rt backend w =
         (Inl e,
          w\<lparr>trace := trace w @
             [EnvGet ''WORLD_SIZE'',
              InitProcessGroup
                \<lparr>ic_backend = backend, ic_init_method = ''env://'',
                 ic_world_size = None, ic_rank = None\<rparr>,
              EnvGet ''MASTER_ADDR'', EnvGet ''MASTER_PORT'',
              LogError (''Dist URL: '' @ addr @ '':'' @ port)]\<rparr>)"
  using assms
  by (simp add: form_group_env_def py_defs env_defs rt_defs py_int_def)

lemma form_group_env_failure_masked:
  assumes "environ w ''WORLD_SIZE'' = Some s" and "parse_int s = Some n" and "1 < n"
    and "init_process_group_rt rt
           \<lparr>ic_backend = backend, ic_init_method = ''env://'',
            ic_world_size = None, ic_rank = None\<rparr> (environ w) = Inl e"
    and "environ w ''MASTER_ADDR'' = Some addr" and "environ w ''MASTER_PORT'' = None"
  shows "form_group_env rt backend w =
         (Inl (KeyError ''MASTER_PORT''),
          w\<lparr>trace := trace w @
             [EnvGet ''WORLD_SIZE'',
              InitProcessGroup
                \<lparr>ic_backend = backend, ic_init_method = ''env://'',
                 ic_world_size = None, ic_rank = None\<rparr>,
              EnvGet ''MASTER_ADDR'', EnvGet ''MASTER_PORT'']\<rparr>)"
  using assms
  by (simp add: form_group_env_def py_defs env_defs rt_defs py_int_def)

text \<open>
  C3. On a failed group initialization the helper is to log the rendezvous address and
  port and raise the original error again. \<open>init_distributed_env\<close> does not when
  \<open>MASTER_PORT\<close> is unset: with \<open>WORLD_SIZE=2\<close> and nothing else set, the rendezvous
  through the environment fails with \<open>ValueError\<close>, the handler looks up
  \<^verbatim>\<open>os.environ['MASTER_PORT']\<close> for the message, and the call ends in
  \<open>KeyError\<close> for \<open>MASTER_PORT\<close> with no line logged.
\<close>

theorem env_handler_masks_failure:
  "init_process_group_rt cooperative_runtime
     \<lparr>ic_backend = ''nccl'', ic_init_method = ''env://'',
      ic_world_size = None, ic_rank = None\<rparr>
     (environ (snd (normalize_env (fresh_world [(''WORLD_SIZE'', ''2'')]))))
     = Inl (ValueError ''environment variable expected, but not set'')
   \<and> fst (init_distributed_env cooperative_runtime ''nccl''
            (fresh_world [(''WORLD_SIZE'', ''2'')])) = Inl (KeyError ''MASTER_PORT'')
   \<and> trace (snd (init_distributed_env cooperative_runtime ''nccl''
            (fresh_world [(''WORLD_SIZE'', ''2'')]))) =
       [EnvGet ''SLURM_NODELIST'', EnvGet ''MASTER_ADDR'', EnvSet ''MASTER_ADDR'' ''localhost'',
        EnvGet ''SLURM_PROCID'', EnvGet ''RANK'', EnvSet ''RANK'' ''0'',
        EnvGet ''SLURM_NTASKS'', EnvGet ''WORLD_SIZE'', EnvSet ''WORLD_SIZE'' ''2'',
        EnvGet ''WORLD_SIZE'',
        InitProcessGroup
          \<lparr>ic_backend = ''nccl'', ic_init_method = ''env://'',
           ic_world_size = None, ic_rank = None\<rparr>,
        EnvGet ''MASTER_ADDR'', EnvGet ''MASTER_PORT'']"
  by code_simp

subsection \<open>The mean across processes\<close>






end
